theory Spec2Isabelle
  imports Main
begin

section \<open>Python strings\<close>

text \<open>
  A Python \<open>str\<close> is modelled as a \<open>string\<close> (a list of 8-bit characters). The model is
  exact for ASCII text, which is what request ids, action words and phone numbers are made of;
  the few non-ASCII literals of the source (emoji, bullets) are written as their UTF-8 bytes.
\<close>

definition isspace :: "char \<Rightarrow> bool" where
  \<comment> \<open>\<open>str.isspace\<close> on ASCII: tab, LF, VT, FF, CR, FS, GS, RS, US and the space.\<close>
  "isspace c = (c \<in> set [CHR 0x09, CHR 0x0A, CHR 0x0B, CHR 0x0C, CHR 0x0D,
                           CHR 0x1C, CHR 0x1D, CHR 0x1E, CHR 0x1F, CHR 0x20])"

definition strip :: "string \<Rightarrow> string" where
  \<comment> \<open>\<open>s.strip()\<close>: drop leading and trailing whitespace.\<close>
  "strip s = rev (dropWhile isspace (rev (dropWhile isspace s)))"

definition upper_char :: "char \<Rightarrow> char" where
  "upper_char c =
     (case map_of (zip ''abcdefghijklmnopqrstuvwxyz'' ''ABCDEFGHIJKLMNOPQRSTUVWXYZ'') c of
        Some u \<Rightarrow> u
      | None \<Rightarrow> c)"

definition upper :: "string \<Rightarrow> string" where
  \<comment> \<open>\<open>s.upper()\<close>\<close>
  "upper s = map upper_char s"

definition startswith :: "string \<Rightarrow> string \<Rightarrow> bool" where
  \<comment> \<open>\<open>s.startswith(p)\<close>\<close>
  "startswith s p = (take (length p) s = p)"

function replace :: "string \<Rightarrow> string \<Rightarrow> string \<Rightarrow> string" where
  \<comment> \<open>\<open>s.replace(old, new)\<close>: every non-overlapping occurrence, scanning from the left.\<close>
  "replace s [] new = new @ concat (map (\<lambda>c. c # new) s)"
| "replace [] (x # xs) new = []"
| "replace (c # cs) (x # xs) new =
     (if startswith (c # cs) (x # xs)
      then new @ replace (drop (length xs) cs) (x # xs) new
      else c # replace cs (x # xs) new)"
  by pat_completeness auto
termination
  by (relation "measure (\<lambda>(s, old, new). length s)") auto

fun split :: "string \<Rightarrow> char \<Rightarrow> string list" where
  \<comment> \<open>\<open>s.split(sep)\<close> for a one-character separator: never the empty list.\<close>
  "split [] sep = [[]]"
| "split (c # cs) sep =
     (if c = sep then [] # split cs sep
      else (case split cs sep of
              [] \<Rightarrow> [[c]]
            | p # ps \<Rightarrow> (c # p) # ps))"

definition truthy :: "string option \<Rightarrow> bool" where
  \<comment> \<open>Python truth value of an optional string: \<open>None\<close> and \<open>""\<close> are false.\<close>
  "truthy v = (case v of None \<Rightarrow> False | Some s \<Rightarrow> s \<noteq> [])"

definition str_of :: "string option \<Rightarrow> string" where
  "str_of v = (case v of None \<Rightarrow> [] | Some s \<Rightarrow> s)"

section \<open>Data model\<close>

text \<open>Timestamps (\<open>datetime\<close>) are integers counting microseconds, the resolution of the source type.\<close>

record ApprovalRequest =
  id_pk :: string
  request_id :: string
  description :: string
  requester :: string
  phone_number :: string
  status :: string
  created_at :: int
  responded_at :: "int option"
  response :: "string option"
  expires_at :: int

text \<open>The table of approval requests. Column \<open>id\<close> is its primary key.\<close>

type_synonym store = "ApprovalRequest list"

record form_data =
  Body :: "string option"
  From :: "string option"
  To :: "string option"
  ListId :: "string option"
  ListTitle :: "string option"
  ButtonText :: "string option"
  ButtonPayload :: "string option"
  MessageStatus :: "string option"
  MessageSid :: "string option"

text \<open>The keyword arguments of \<open>twilio_client.messages.create\<close>.\<close>

record message =
  body :: "string option"
  from_ :: "string option"
  to :: string
  content_sid :: "string option"
  content_variables :: "(string \<times> string) list option"

text \<open>
  The messaging client is outside the program: a call to \<open>messages.create\<close> either returns
  (\<open>Inr\<close>) or raises (\<open>Inl\<close>, carrying \<open>str(e)\<close>).
\<close>

type_synonym client = "message \<Rightarrow> string + unit"

record config =
  twilio_client :: "client option"
  TWILIO_WHATSAPP_FROM :: string
  TWILIO_CONTENT_SID :: "string option"
  APPROVAL_PHONE :: "string option"

datatype jval = JStr string | JBool bool

text \<open>A returned dictionary or JSON object, as its key-value pairs in order.\<close>

type_synonym json = "(string \<times> jval) list"

section \<open>The webhook handler\<close>

definition ignored :: "string \<Rightarrow> json" where
  "ignored reason = [(''status'', JStr ''ignored''), (''reason'', JStr reason)]"

definition error_reason :: "string \<Rightarrow> json" where
  "error_reason reason = [(''status'', JStr ''error''), (''reason'', JStr reason)]"

definition parse_response :: "form_data \<Rightarrow> json + (string \<times> string \<times> string)" where
  \<comment> \<open>\<open>twilio_webhook\<close>, from the status-callback test to the end of the text branch:
      an early return (\<open>Inl\<close>) or \<open>(short_id, response, response_text)\<close>.\<close>
  "parse_response f =
     (if truthy (MessageStatus f) \<and> \<not> truthy (Body f) then
        Inl [(''status'', JStr ''ok''), (''message'', JStr ''Status callback received'')]
      else if \<not> truthy (From f) then
        Inl [(''status'', JStr ''error''), (''message'', JStr ''Missing From field'')]
      else if truthy (ButtonPayload f) then
        (case split (str_of (ButtonPayload f)) (CHR ''_'') of
           [action, short_id] \<Rightarrow>
             if action \<in> set [''approve'', ''deny''] then
               Inr (short_id,
                    if action = ''approve'' then ''approved'' else ''denied'',
                    if truthy (ButtonText f) then str_of (ButtonText f)
                    else action @ ''_'' @ short_id)
             else Inl (ignored ''Invalid button payload'')
         | _ \<Rightarrow> Inl (ignored ''Invalid button payload format''))
      else if truthy (ListId f) then
        (case split (str_of (ListId f)) (CHR '':'') of
           [action, short_id] \<Rightarrow>
             if action \<in> set [''approve'', ''deny''] then
               Inr (short_id,
                    if action = ''approve'' then ''approved'' else ''denied'',
                    action @ '':'' @ short_id)
             else Inl (ignored ''Invalid list selection'')
         | _ \<Rightarrow> Inl (ignored ''Invalid list ID format''))
      else if \<not> truthy (Body f) then
        Inl (ignored ''No body content'')
      else
        (let body = upper (strip (str_of (Body f))) in
         if startswith body ''APPROVE '' then
           Inr (strip (replace body ''APPROVE '' ''''), ''approved'', body)
         else if startswith body ''DENY '' then
           Inr (strip (replace body ''DENY '' ''''), ''denied'', body)
         else Inl (ignored ''Invalid format'')))"

definition from_phone_of :: "string \<Rightarrow> string" where
  \<comment> \<open>\<open>from_phone\<close>: the sender with every \<open>whatsapp:\<close> removed, when it starts with one.\<close>
  "from_phone_of sender =
     (if startswith sender ''whatsapp:'' then replace sender ''whatsapp:'' '''' else sender)"

definition commit_update :: "ApprovalRequest \<Rightarrow> store \<Rightarrow> store" where
  \<comment> \<open>\<open>session.add(approval); session.commit()\<close> for a loaded row: UPDATE by primary key.\<close>
  "commit_update a s = map (\<lambda>r. if id_pk r = id_pk a then a else r) s"

definition confirmation :: "string \<Rightarrow> string \<Rightarrow> string" where
  "confirmation resp short_id =
     (if resp = ''approved''
      then [CHR 0xE2, CHR 0x9C, CHR 0x85] @ '' Request '' @ short_id @ '' has been approved.''
      else [CHR 0xE2, CHR 0x9D, CHR 0x8C] @ '' Request '' @ short_id @ '' has been denied.'')"

definition twilio_webhook ::
  "config \<Rightarrow> int \<Rightarrow> int \<Rightarrow> form_data \<Rightarrow> store \<Rightarrow> (string + json) \<times> store" where
  \<comment> \<open>\<open>utcnow_297\<close> and \<open>utcnow_304\<close> are the clock readings of the expiry test and of
      \<open>responded_at\<close>. The result is the JSON response (\<open>Inr\<close>) or the exception that leaves the
      handler (\<open>Inl\<close>), with the table as the handler leaves it.\<close>
  "twilio_webhook cfg utcnow_297 utcnow_304 f s =
     (case parse_response f of
        Inl early \<Rightarrow> (Inr early, s)
      | Inr (short_id, resp, response_text) \<Rightarrow>
          (let from_phone = from_phone_of (str_of (From f)) in
           case find (\<lambda>r. id_pk r = short_id \<and> phone_number r = from_phone) s of
             None \<Rightarrow> (Inr (error_reason ''Request not found''), s)
           | Some approval \<Rightarrow>
               if status approval \<noteq> ''pending'' then
                 (Inr (error_reason ''Request already processed''), s)
               else if utcnow_297 > expires_at approval then
                 (Inr (error_reason ''Request expired''), s)
               else
                 (let approval' = approval\<lparr>status := resp,
                                            response := Some response_text,
                                            responded_at := Some utcnow_304\<rparr>;
                      s' = commit_update approval' s;
                      success = [(''status'', JStr ''success''),
                                 (''request_id'', JStr (request_id approval')),
                                 (''response'', JStr resp)]
                  in case twilio_client cfg of
                       None \<Rightarrow> (Inr success, s')
                     | Some messages_create \<Rightarrow>
                         (case messages_create
                                 \<lparr>body = Some (confirmation resp short_id),
                                  from_ = To f, to = str_of (From f),
                                  content_sid = None, content_variables = None\<rparr> of
                            Inl e \<Rightarrow> (Inl e, s')
                          | Inr sent \<Rightarrow> (Inr success, s')))))"

section \<open>The approval tool\<close>

text \<open>
  A value of the \<open>input\<close> dictionary: a \<open>str\<close>, or any other object, given by the text that
  \<open>str()\<close> renders it to. The dictionary is the list of its items in iteration order.
\<close>

datatype pyval = PyStr string | PyObj string

definition py_str :: "pyval \<Rightarrow> string" where
  "py_str v = (case v of PyStr s \<Rightarrow> s | PyObj s \<Rightarrow> s)"

definition dict_get :: "(string \<times> pyval) list \<Rightarrow> string \<Rightarrow> pyval \<Rightarrow> pyval" where
  "dict_get d k dflt = (case map_of d k of None \<Rightarrow> dflt | Some v \<Rightarrow> v)"

fun join :: "string \<Rightarrow> string list \<Rightarrow> string" where
  "join sep [] = []"
| "join sep [x] = x"
| "join sep (x # y # ys) = x @ sep @ join sep (y # ys)"

definition nl :: string where
  "nl = [CHR 0x0A]"

definition bullet :: string where
  "bullet = [CHR 0xE2, CHR 0x80, CHR 0xA2]"

definition format_param :: "string \<times> pyval \<Rightarrow> string" where
  "format_param kv =
     (case kv of (key, v) \<Rightarrow>
        ''  '' @ bullet @ '' '' @ key @ '': '' @
        py_str (case v of
                  PyStr t \<Rightarrow> if length t > 50 then PyStr (take 50 t @ ''...'') else v
                | PyObj t \<Rightarrow> v))"

definition format_request :: "string \<Rightarrow> (string \<times> pyval) list \<Rightarrow> string \<Rightarrow> string" where
  "format_request tool_name input reason =
     (let request =
        (if tool_name = ''Bash'' then
           ''Execute command: `'' @ py_str (dict_get input ''command'' (PyStr [])) @ ''`'' @ nl @
           ''*Reason:* '' @ py_str (dict_get input ''description'' (PyStr []))
         else
           ''*Tool:* '' @ tool_name @
           (if input \<noteq> [] then nl @ join nl (map format_param input) else []))
      in if reason \<noteq> [] then ''*Reason:* '' @ reason @ nl @ nl @ request else request)"

definition approval_message :: "config \<Rightarrow> string \<Rightarrow> string \<Rightarrow> string \<Rightarrow> message" where
  \<comment> \<open>The template message when a content SID is configured, the plain text otherwise.\<close>
  "approval_message cfg request short_id to_number =
     (if truthy (TWILIO_CONTENT_SID cfg) then
        \<lparr>body = None, from_ = Some (TWILIO_WHATSAPP_FROM cfg), to = to_number,
         content_sid = TWILIO_CONTENT_SID cfg,
         content_variables = Some [(''1'', request), (''2'', short_id)]\<rparr>
      else
        \<lparr>body = Some (strip
           ([CHR 0xF0, CHR 0x9F, CHR 0x94, CHR 0x94] @ '' *Approval Request*'' @ nl @ nl @
            request @ nl @ nl @
            ''*Request ID:* `'' @ short_id @ ''`'' @ nl @ nl @
            ''Reply:'' @ nl @
            bullet @ '' *APPROVE '' @ short_id @ ''*'' @ nl @
            bullet @ '' *DENY '' @ short_id @ ''*'' @ nl @ nl @
            [CHR 0xE2, CHR 0x8F, CHR 0xB1, CHR 0xEF, CHR 0xB8, CHR 0x8F] @
            '' Expires in 5 minutes'')),
         from_ = Some (TWILIO_WHATSAPP_FROM cfg), to = to_number,
         content_sid = None, content_variables = None\<rparr>)"

text \<open>
  What the tool reads from outside while it runs: the generated UUID, the clock (one field for
  each \<open>datetime.utcnow()\<close> of the source, named by its line; the two inside the loop are read
  once per iteration \<open>k\<close>), and what the other handlers of the server do to the table while
  the tool is suspended in its \<open>k\<close>-th \<open>asyncio.sleep\<close>.
\<close>

record env =
  uuid4 :: string
  utcnow_94 :: int
  utcnow_97 :: int
  utcnow_150 :: int
  utcnow_152 :: "nat \<Rightarrow> int"
  utcnow_165 :: "nat \<Rightarrow> int"
  asyncio_sleep :: "nat \<Rightarrow> store \<Rightarrow> store"

definition approved :: json where
  "approved = [(''approved'', JBool True)]"

definition denied :: json where
  "denied = [(''denied'', JBool True), (''message'', JStr ''Request was denied'')]"

definition error :: "string \<Rightarrow> json" where
  "error reason = [(''error'', JStr reason)]"

definition commit_insert :: "ApprovalRequest \<Rightarrow> store \<Rightarrow> string + store" where
  \<comment> \<open>\<open>session.add(approval); session.commit()\<close> for a new row: the primary key \<open>id\<close> and the
      unique column \<open>request_id\<close> make the commit raise on a duplicate.\<close>
  "commit_insert a s =
     (if find (\<lambda>r. id_pk r = id_pk a \<or> request_id r = request_id a) s \<noteq> None
      then Inl ''IntegrityError''
      else Inr (s @ [a]))"

definition session_delete :: "string \<Rightarrow> store \<Rightarrow> store" where
  \<comment> \<open>\<open>session.get\<close> by primary key, then \<open>session.delete\<close> and \<open>commit\<close> when the row exists.\<close>
  "session_delete short_id s =
     (case find (\<lambda>r. id_pk r = short_id) s of
        None \<Rightarrow> s
      | Some approval_to_delete \<Rightarrow> filter (\<lambda>r. id_pk r \<noteq> id_pk approval_to_delete) s)"

definition max_wait_time :: int where
  "max_wait_time = 300 * 1000000"


definition poll :: "string \<Rightarrow> store \<Rightarrow> json option" where
  \<comment> \<open>One read of the table inside the loop: the result to return, if the row is resolved.\<close>
  "poll short_id s =
     (case find (\<lambda>r. id_pk r = short_id) s of
        None \<Rightarrow> None
      | Some current_approval \<Rightarrow>
          if status current_approval \<noteq> ''pending'' then
            Some (if status current_approval = ''approved'' then approved else denied)
          else None)"

partial_function (option) wait_loop ::
  "env \<Rightarrow> string \<Rightarrow> int \<Rightarrow> int \<Rightarrow> nat \<Rightarrow> store \<Rightarrow> (json \<times> store) option" where
  \<comment> \<open>The \<open>while\<close> loop from its \<open>k\<close>-th iteration on; \<open>None\<close> when it never returns.\<close>
  "wait_loop e short_id expires start_time k s =
     (if utcnow_152 e k - start_time < max_wait_time then
        (case poll short_id s of
           Some result \<Rightarrow> Some (result, s)
         | None \<Rightarrow>
             if utcnow_165 e k > expires then Some (error ''Request expired'', s)
             else wait_loop e short_id expires start_time (Suc k) (asyncio_sleep e k s))
      else Some (error ''Request timed out'', s))"

declare wait_loop.simps [code]

definition new_approval :: "env \<Rightarrow> string \<Rightarrow> string \<Rightarrow> ApprovalRequest" where
  \<comment> \<open>The \<open>ApprovalRequest(...)\<close> that the tool builds; the fields it does not give take the
      defaults of the class.\<close>
  "new_approval e request phone =
     \<lparr>id_pk = take 8 (uuid4 e), request_id = uuid4 e, description = request,
      requester = ''Claude'', phone_number = phone, status = ''pending'',
      created_at = utcnow_97 e, responded_at = None, response = None,
      expires_at = utcnow_94 e + 5 * 60 * 1000000\<rparr>"

definition to_number_of :: "string \<Rightarrow> string" where
  \<comment> \<open>\<open>to_number\<close>: the address the request is sent to.\<close>
  "to_number_of phone =
     (if \<not> startswith phone ''whatsapp:'' then ''whatsapp:'' @ phone else phone)"

definition permissions__approve ::
  "config \<Rightarrow> env \<Rightarrow> string \<Rightarrow> (string \<times> pyval) list \<Rightarrow> string \<Rightarrow> store
     \<Rightarrow> ((string + json) \<times> store) option" where
  \<comment> \<open>The returned dictionary (\<open>Inr\<close>) or the exception that leaves the tool (\<open>Inl\<close>), with the
      table as the tool leaves it; \<open>None\<close> when the tool never returns.\<close>
  "permissions__approve cfg e tool_name input reason s =
     (let request = format_request tool_name input reason in
      case twilio_client cfg of
        None \<Rightarrow> Some (Inr (error ''Twilio not configured''), s)
      | Some messages_create \<Rightarrow>
          if \<not> truthy (APPROVAL_PHONE cfg) then
            Some (Inr (error ''APPROVAL_PHONE not configured in environment variables''), s)
          else
            (let phone = str_of (APPROVAL_PHONE cfg);
                 approval = new_approval e request phone;
                 short_id = id_pk approval
             in case commit_insert approval s of
                  Inl exn \<Rightarrow> Some (Inl exn, s)
                | Inr s1 \<Rightarrow>
                    (let to_number = to_number_of phone
                     in case messages_create (approval_message cfg request short_id to_number) of
                          Inl exn \<Rightarrow>
                            Some (Inr (error (''Failed to send WhatsApp message: '' @ exn)),
                                  session_delete short_id s1)
                        | Inr sent \<Rightarrow>
                            map_option (\<lambda>(result, s'). (Inr result, s'))
                              (wait_loop e short_id (expires_at approval) (utcnow_150 e) 0 s1))))"


section \<open>The life of the table\<close>

text \<open>
  The invariant of a stored request, and the tables the server can reach: starting empty, the
  tool inserts a new request or deletes one, and the webhook handler runs on a callback.
\<close>

definition row_inv :: "ApprovalRequest \<Rightarrow> bool" where
  "row_inv r = ((responded_at r = None) = (status r = ''pending'') \<and>
                (response r = None) = (status r = ''pending''))"

inductive reachable :: "store \<Rightarrow> bool" where
  initial: "reachable []"
| created: "reachable s \<Longrightarrow> commit_insert (new_approval e request phone) s = Inr s' \<Longrightarrow> reachable s'"
| removed: "reachable s \<Longrightarrow> reachable (session_delete short_id s)"
| answered: "reachable s \<Longrightarrow> twilio_webhook cfg utcnow_297 utcnow_304 f s = (out, s') \<Longrightarrow> reachable s'"

section \<open>Example data\<close>

definition empty_form :: form_data where
  "empty_form = \<lparr>Body = None, From = None, To = None, ListId = None, ListTitle = None,
     ButtonText = None, ButtonPayload = None, MessageStatus = None, MessageSid = None\<rparr>"

definition button_form :: form_data where
  "button_form = empty_form\<lparr>From := Some ''whatsapp:+15551234567'',
     To := Some ''whatsapp:+14155238886'', ButtonPayload := Some ''approve_abc12345''\<rparr>"

definition pending_row :: ApprovalRequest where
  "pending_row = \<lparr>id_pk = ''abc12345'', request_id = ''abc12345-6789-4abc-8def-0123456789ab'',
     description = ''*Tool:* Write'', requester = ''Claude'', phone_number = ''+15551234567'',
     status = ''pending'', created_at = 0, responded_at = None, response = None,
     expires_at = 300000000\<rparr>"

definition approved_row :: ApprovalRequest where
  "approved_row = pending_row\<lparr>status := ''approved'', responded_at := Some 10000001,
     response := Some ''approve_abc12345''\<rparr>"

definition no_client :: config where
  "no_client = \<lparr>twilio_client = None, TWILIO_WHATSAPP_FROM = ''whatsapp:+14155238886'',
     TWILIO_CONTENT_SID = None, APPROVAL_PHONE = Some ''+15551234567''\<rparr>"

definition failing_client :: config where
  "failing_client = \<lparr>twilio_client = Some (\<lambda>m. Inl ''HTTP 500''),
     TWILIO_WHATSAPP_FROM = ''whatsapp:+14155238886'', TWILIO_CONTENT_SID = None,
     APPROVAL_PHONE = Some ''+15551234567''\<rparr>"

definition quiet_env :: env where
  "quiet_env = \<lparr>uuid4 = ''abc12345-6789-4abc-8def-0123456789ab'', utcnow_94 = 0, utcnow_97 = 0,
     utcnow_150 = 1000000, utcnow_152 = (\<lambda>k. 1000000 + int k * 2000000),
     utcnow_165 = (\<lambda>k. 1000000 + int k * 2000000), asyncio_sleep = (\<lambda>k s. s)\<rparr>"

definition text_form :: form_data where
  "text_form = empty_form\<lparr>From := Some ''whatsapp:+15551234567'',
     To := Some ''whatsapp:+14155238886'', Body := Some ''approve abc12345''\<rparr>"

definition ok_client :: config where
  "ok_client = \<lparr>twilio_client = Some (\<lambda>m. Inr ()),
     TWILIO_WHATSAPP_FROM = ''whatsapp:+14155238886'', TWILIO_CONTENT_SID = None,
     APPROVAL_PHONE = Some ''+15551234567''\<rparr>"

text \<open>
  A run of the tool that starts at time 0 and polls every two seconds, while a callback with the
  form \<open>f\<close> reaches the webhook handler ten seconds after the start.
\<close>

definition reply_env :: "config \<Rightarrow> form_data \<Rightarrow> env" where
  "reply_env cfg f = \<lparr>uuid4 = ''abc12345-6789-4abc-8def-0123456789ab'', utcnow_94 = 0, utcnow_97 = 0,
     utcnow_150 = 0, utcnow_152 = (\<lambda>k. int k * 2000000),
     utcnow_165 = (\<lambda>k. int k * 2000000),
     asyncio_sleep = (\<lambda>k s. if k = 5
                               then snd (twilio_webhook cfg 10000000 10000001 f s)
                               else s)\<rparr>"

definition prefixed_client :: config where
  "prefixed_client = ok_client\<lparr>APPROVAL_PHONE := Some ''whatsapp:+15551234567''\<rparr>"

definition prefixed_row :: ApprovalRequest where
  "prefixed_row = pending_row\<lparr>phone_number := ''whatsapp:+15551234567''\<rparr>"

definition crafted_form :: form_data where
  "crafted_form = button_form\<lparr>From := Some ''whatsapp:whatswhatsapp:app:+15551234567''\<rparr>"



text \<open>The same run, where the callback reaches the handler in the last sleep, after 299 seconds.\<close>

definition late_reply_env :: "config \<Rightarrow> form_data \<Rightarrow> env" where
  "late_reply_env cfg f = (reply_env cfg f)\<lparr>asyncio_sleep :=
     (\<lambda>k s. if k = 149 then snd (twilio_webhook cfg 299000000 299000001 f s) else s)\<rparr>"


definition interior_form :: form_data where
  "interior_form = button_form\<lparr>From := Some ''whatsapp:+1555whatsapp:1234567''\<rparr>"

section \<open>Auxiliary facts\<close>

subsection \<open>Tables\<close>

lemma find_primary_key:
  assumes "distinct (map id_pk s)" and "a \<in> set s" and "P a"
    and "\<forall>r. P r \<longrightarrow> id_pk r = id_pk a"
  shows "find P s = Some a"
  using assms(1,2)
proof (induction s)
  case Nil
  then show ?case by simp
next
  case (Cons r s)
  show ?case
  proof (cases "r = a")
    case True
    with assms(3) show ?thesis by simp
  next
    case False
    with Cons.prems have in_s: "a \<in> set s" by simp
    have "\<not> P r"
    proof
      assume "P r"
      with assms(4) have "id_pk r = id_pk a" by blast
      with in_s Cons.prems(1) show False by force
    qed
    moreover have "find P s = Some a"
      using Cons.IH Cons.prems(1) in_s by simp
    ultimately show ?thesis by simp
  qed
qed

lemma find_Some_holds:
  assumes "find P s = Some a"
  shows "a \<in> set s \<and> P a"
  using assms by (induction s) (auto split: if_splits)

lemma commit_insert_Inr:
  assumes "commit_insert a s = Inr s1"
  shows "s1 = s @ [a]" and "\<forall>r \<in> set s. id_pk r \<noteq> id_pk a"
  using assms by (auto simp: commit_insert_def find_None_iff split: if_splits)


lemma commit_update_ids:
  assumes "id_pk a' = id_pk a"
  shows "map id_pk (commit_update a' s) = map id_pk s"
  using assms by (induction s) (auto simp: commit_update_def)

lemma commit_update_nth:
  assumes "distinct (map id_pk s)" and "a \<in> set s" and "id_pk a' = id_pk a" and "i < length s"
  shows "commit_update a' s ! i = (if s ! i = a then a' else s ! i)"
proof -
  have "id_pk (s ! i) = id_pk a \<Longrightarrow> s ! i = a"
  proof -
    assume same: "id_pk (s ! i) = id_pk a"
    from assms(2) obtain j where j: "j < length s" "s ! j = a"
      by (auto simp: in_set_conv_nth)
    have "map id_pk s ! i = map id_pk s ! j"
      using same j assms(4) by simp
    moreover have "i < length (map id_pk s)" and "j < length (map id_pk s)"
      using assms(4) j(1) by simp_all
    ultimately have "i = j"
      using assms(1) nth_eq_iff_index_eq by blast
    with j show "s ! i = a" by simp
  qed
  then show ?thesis
    using assms(3,4) by (auto simp: commit_update_def)
qed

subsection \<open>Strings and the parser\<close>

lemma split_without_sep:
  assumes "sep \<notin> set s"
  shows "split s sep = [s]"
  using assms by (induction s) auto

lemma split_at_sep:
  assumes "sep \<notin> set a" and "sep \<notin> set b"
  shows "split (a @ sep # b) sep = [a, b]"
  using assms by (induction a) (auto simp: split_without_sep)

lemma button_round_trip:
  assumes action: "action = ''approve'' \<or> action = ''deny''"
    and no_sep: "CHR ''_'' \<notin> set short_id"
    and sender: "truthy (From f)"
    and message: "\<not> truthy (MessageStatus f) \<or> truthy (Body f)"
    and payload: "ButtonPayload f = Some (action @ ''_'' @ short_id)"
  shows "\<exists>response_text. parse_response f =
           Inr (short_id, if action = ''approve'' then ''approved'' else ''denied'', response_text)"
proof -
  have "CHR ''_'' \<notin> set action"
    using action by auto
  then have "split (action @ ''_'' @ short_id) (CHR ''_'') = [action, short_id]"
    using no_sep split_at_sep [of "CHR ''_''" action short_id] by simp
  moreover have "truthy (ButtonPayload f)"
    using payload by (simp add: truthy_def)
  ultimately show ?thesis
    using action sender message payload
    by (auto simp: parse_response_def str_of_def)
qed

lemma list_round_trip:
  assumes action: "action = ''approve'' \<or> action = ''deny''"
    and no_sep: "CHR '':'' \<notin> set short_id"
    and sender: "truthy (From f)"
    and message: "\<not> truthy (MessageStatus f) \<or> truthy (Body f)"
    and no_button: "\<not> truthy (ButtonPayload f)"
    and selection: "ListId f = Some (action @ '':'' @ short_id)"
  shows "parse_response f =
           Inr (short_id, if action = ''approve'' then ''approved'' else ''denied'',
                action @ '':'' @ short_id)"
proof -
  have "CHR '':'' \<notin> set action"
    using action by auto
  then have "split (action @ '':'' @ short_id) (CHR '':'') = [action, short_id]"
    using no_sep split_at_sep [of "CHR '':''" action short_id] by simp
  moreover have "truthy (ListId f)"
    using selection by (simp add: truthy_def)
  ultimately show ?thesis
    using action sender message no_button selection
    by (auto simp: parse_response_def str_of_def)
qed

lemma parse_response_decision:
  assumes "parse_response f = Inr (short_id, resp, response_text)"
  shows "resp = ''approved'' \<or> resp = ''denied''"
  using assms unfolding parse_response_def Let_def
  by (auto split: if_splits list.splits)

lemma replace_shorter:
  "length (replace s (x # xs) []) \<le> length s"
proof (induction "length s" arbitrary: s rule: less_induct)
  case less
  show ?case
  proof (cases s)
    case Nil
    then show ?thesis by simp
  next
    case (Cons c cs)
    show ?thesis
    proof (cases "startswith (c # cs) (x # xs)")
      case True
      have "length (replace (drop (length xs) cs) (x # xs) []) \<le> length (drop (length xs) cs)"
        using Cons by (intro less) simp
      with True Cons show ?thesis by simp
    next
      case False
      have "length (replace cs (x # xs) []) \<le> length cs"
        using Cons by (intro less) simp
      with False Cons show ?thesis by simp
    qed
  qed
qed

lemma replace_prefix_shorter:
  assumes "startswith s (x # xs)"
  shows "length (replace s (x # xs) []) < length s"
proof (cases s)
  case Nil
  with assms show ?thesis by (simp add: startswith_def)
next
  case (Cons c cs)
  have "length (replace (drop (length xs) cs) (x # xs) []) \<le> length cs"
    using replace_shorter [of "drop (length xs) cs" x xs] by simp
  with assms Cons show ?thesis by simp
qed

lemma from_phone_of_prefixed:
  assumes "startswith sender ''whatsapp:''"
  shows "from_phone_of sender \<noteq> sender"
  using replace_prefix_shorter [of sender "CHR ''w''" "''hatsapp:''"] assms
  by (auto simp: from_phone_of_def)

subsection \<open>The handler\<close>

lemma twilio_webhook_cases:
  assumes "twilio_webhook cfg utcnow_297 utcnow_304 f s = (out, s')"
  shows "s' = s \<or>
         (\<exists>short_id resp response_text approval.
            parse_response f = Inr (short_id, resp, response_text) \<and>
            find (\<lambda>r. id_pk r = short_id \<and> phone_number r = from_phone_of (str_of (From f))) s
              = Some approval \<and>
            status approval = ''pending'' \<and> \<not> utcnow_297 > expires_at approval \<and>
            s' = commit_update (approval\<lparr>status := resp, response := Some response_text,
                                         responded_at := Some utcnow_304\<rparr>) s)"
  using assms unfolding twilio_webhook_def Let_def
  by (auto split: sum.splits option.splits if_splits prod.splits)

subsection \<open>Reachable tables\<close>

lemma reachable_distinct:
  assumes "reachable s"
  shows "distinct (map id_pk s)"
  using assms
proof (induction rule: reachable.induct)
  case initial
  show ?case by simp
next
  case (created s e request phone s')
  from commit_insert_Inr [OF created.hyps(2)] created.IH show ?case
    by auto
next
  case (removed s short_id)
  then show ?case
    by (auto simp: session_delete_def distinct_map_filter split: option.splits)
next
  case (answered s cfg utcnow_297 utcnow_304 f out s')
  from twilio_webhook_cases [OF answered.hyps(2)] answered.IH show ?case
    by (auto simp: commit_update_ids)
qed

lemma reachable_row_inv:
  assumes "reachable s"
  shows "\<forall>r \<in> set s. row_inv r"
  using assms
proof (induction rule: reachable.induct)
  case initial
  show ?case by simp
next
  case (created s e request phone s')
  have "row_inv (new_approval e request phone)"
    by (simp add: row_inv_def new_approval_def)
  with commit_insert_Inr(1) [OF created.hyps(2)] created.IH show ?case
    by simp
next
  case (removed s short_id)
  then show ?case
    by (auto simp: session_delete_def split: option.splits)
next
  case (answered s cfg utcnow_297 utcnow_304 f out s')
  from twilio_webhook_cases [OF answered.hyps(2)] show ?case
  proof
    assume "s' = s"
    with answered.IH show ?thesis by simp
  next
    assume "\<exists>short_id resp response_text approval.
            parse_response f = Inr (short_id, resp, response_text) \<and>
            find (\<lambda>r. id_pk r = short_id \<and> phone_number r = from_phone_of (str_of (From f))) s
              = Some approval \<and>
            status approval = ''pending'' \<and> \<not> utcnow_297 > expires_at approval \<and>
            s' = commit_update (approval\<lparr>status := resp, response := Some response_text,
                                         responded_at := Some utcnow_304\<rparr>) s"
    then obtain short_id resp response_text approval where
      parsed: "parse_response f = Inr (short_id, resp, response_text)" and
      s': "s' = commit_update (approval\<lparr>status := resp, response := Some response_text,
                                         responded_at := Some utcnow_304\<rparr>) s"
      by blast
    from parse_response_decision [OF parsed]
    have "row_inv (approval\<lparr>status := resp, response := Some response_text,
                                         responded_at := Some utcnow_304\<rparr>)"
      by (auto simp: row_inv_def)
    with answered.IH show ?thesis
      unfolding s' commit_update_def by auto
  qed
qed

subsection \<open>The loop\<close>





subsection \<open>The example data\<close>

lemmas string_defs = truthy_def str_of_def startswith_def strip_def isspace_def upper_def
  upper_char_def

lemma parse_button_form:
  "parse_response button_form = Inr (''abc12345'', ''approved'', ''approve_abc12345'')"
  by (simp add: parse_response_def button_form_def empty_form_def string_defs)

lemma from_phone_button_form:
  "from_phone_of (str_of (From button_form)) = ''+15551234567''"
  by (simp add: from_phone_of_def button_form_def empty_form_def string_defs)

lemma pending_row_created:
  "new_approval quiet_env ''*Tool:* Write'' ''+15551234567'' = pending_row"
  by (simp add: new_approval_def quiet_env_def pending_row_def)

lemma reachable_pending_row: "reachable [pending_row]"
proof -
  have "commit_insert (new_approval quiet_env ''*Tool:* Write'' ''+15551234567'') [] = Inr [pending_row]"
    by (simp add: commit_insert_def pending_row_created)
  with reachable.initial show ?thesis
    by (rule reachable.created)
qed

lemma webhook_button_form:
  "twilio_webhook no_client 10000000 10000001 button_form [pending_row] =
     (Inr [(''status'', JStr ''success''),
           (''request_id'', JStr ''abc12345-6789-4abc-8def-0123456789ab''),
           (''response'', JStr ''approved'')], [approved_row])"
  by (simp add: twilio_webhook_def parse_button_form from_phone_button_form pending_row_def
      approved_row_def no_client_def commit_update_def)

lemma late_reply_env_clock:
  "utcnow_150 (late_reply_env cfg f) \<le> utcnow_152 (late_reply_env cfg f) 0 \<and>
   (\<forall>k. utcnow_152 (late_reply_env cfg f) k \<le> utcnow_165 (late_reply_env cfg f) k) \<and>
   (\<forall>k. utcnow_165 (late_reply_env cfg f) k + 2000000 \<le> utcnow_152 (late_reply_env cfg f) (Suc k))"
  by (simp add: late_reply_env_def reply_env_def)

subsection \<open>Replies typed as text\<close>

text \<open>
  The id that the text branch of the parser returns is cut out of the upper-cased body, so it
  holds no lowercase letter: a text reply finds no request whose id has one.
\<close>

lemma translate_avoids_source:
  assumes "length xs = length ys" and "set ys \<inter> set xs = {}"
  shows "(case map_of (zip xs ys) c of Some u \<Rightarrow> u | None \<Rightarrow> c) \<notin> set xs"
proof (cases "map_of (zip xs ys) c")
  case None
  have "map fst (zip xs ys) = xs"
    using assms(1) by (rule map_fst_zip)
  then have "c \<notin> set xs"
    using None map_of_eq_None_iff [of "zip xs ys" c] by (metis set_map)
  with None show ?thesis by simp
next
  case (Some u)
  then have "(c, u) \<in> set (zip xs ys)"
    by (rule map_of_SomeD)
  then have "u \<in> set ys"
    by (rule set_zip_rightD)
  with assms(2) Some show ?thesis by auto
qed

lemma upper_char_not_lower:
  "upper_char c \<notin> set ''abcdefghijklmnopqrstuvwxyz''"
  unfolding upper_char_def
  by (rule translate_avoids_source) auto

lemma map_avoids:
  assumes "\<And>c. f c \<notin> L"
  shows "set (map f s) \<inter> L = {}"
  using assms by auto

lemma upper_no_lower:
  "set (upper s) \<inter> set ''abcdefghijklmnopqrstuvwxyz'' = {}"
  unfolding upper_def by (rule map_avoids) (rule upper_char_not_lower)

lemma set_strip: "set (strip s) \<subseteq> set s"
proof -
  have "set (dropWhile isspace (rev (dropWhile isspace s))) \<subseteq> set (rev (dropWhile isspace s))"
    by (auto dest: set_dropWhileD)
  also have "\<dots> \<subseteq> set s"
    by (auto dest: set_dropWhileD)
  finally show ?thesis
    by (simp add: strip_def)
qed

lemma set_replace_delete: "set (replace s (x # xs) []) \<subseteq> set s"
proof (induction "length s" arbitrary: s rule: less_induct)
  case less
  show ?case
  proof (cases s)
    case Nil
    then show ?thesis by simp
  next
    case (Cons c cs)
    show ?thesis
    proof (cases "startswith (c # cs) (x # xs)")
      case True
      have "set (replace (drop (length xs) cs) (x # xs) []) \<subseteq> set (drop (length xs) cs)"
        using Cons by (intro less) simp
      also have "\<dots> \<subseteq> set cs"
        by (rule set_drop_subset)
      finally show ?thesis
        using True Cons by auto
    next
      case False
      have "set (replace cs (x # xs) []) \<subseteq> set cs"
        using Cons by (intro less) simp
      with False Cons show ?thesis by auto
    qed
  qed
qed

lemma text_reply_id_from_upper:
  assumes no_button: "\<not> truthy (ButtonPayload f)"
    and no_list: "\<not> truthy (ListId f)"
    and parsed: "parse_response f = Inr (short_id, resp, response_text)"
  shows "set short_id \<subseteq> set (upper (strip (str_of (Body f))))"
proof -
  let ?body = "upper (strip (str_of (Body f)))"
  have "short_id = strip (replace ?body ''APPROVE '' []) \<or>
        short_id = strip (replace ?body ''DENY '' [])"
    using assms by (auto simp: parse_response_def Let_def split: if_splits)
  then show ?thesis
  proof
    assume "short_id = strip (replace ?body ''APPROVE '' [])"
    then show ?thesis
      using order_trans [OF set_strip set_replace_delete] by simp
  next
    assume "short_id = strip (replace ?body ''DENY '' [])"
    then show ?thesis
      using order_trans [OF set_strip set_replace_delete] by simp
  qed
qed

lemma text_reply_lowercase_id_not_found:
  assumes no_button: "\<not> truthy (ButtonPayload f)"
    and no_list: "\<not> truthy (ListId f)"
    and parsed: "parse_response f = Inr (short_id, resp, response_text)"
    and lowercase: "\<forall>r \<in> set s. set (id_pk r) \<inter> set ''abcdefghijklmnopqrstuvwxyz'' \<noteq> {}"
  shows "twilio_webhook cfg utcnow_297 utcnow_304 f s =
           (Inr (error_reason ''Request not found''), s)"
proof -
  define lower where "lower = set ''abcdefghijklmnopqrstuvwxyz''"
  have "set short_id \<inter> lower = {}"
    using text_reply_id_from_upper [OF no_button no_list parsed] upper_no_lower
    unfolding lower_def by blast
  moreover have "\<forall>r \<in> set s. set (id_pk r) \<inter> lower \<noteq> {}"
    using lowercase unfolding lower_def .
  ultimately have "\<forall>r \<in> set s. id_pk r \<noteq> short_id"
    by blast
  then have "find (\<lambda>r. id_pk r = short_id \<and> phone_number r = from_phone_of (str_of (From f))) s
               = None"
    by (auto simp: find_None_iff)
  then show ?thesis
    using parsed by (simp add: twilio_webhook_def)
qed

subsection \<open>Callbacks that reach the request\<close>

text \<open>
  When the id that the parser returns is the stored one and the normalised sender is the stored
  address, a resolved request is answered with "Request already processed" and an expired one
  with "Request expired"; the table stays as it was.
\<close>

lemma resolved_request_already_processed:
  assumes parsed: "parse_response f = Inr (short_id, resp, response_text)"
    and pk: "distinct (map id_pk s)"
    and stored: "approval \<in> set s"
    and same_id: "id_pk approval = short_id"
    and same_sender: "phone_number approval = from_phone_of (str_of (From f))"
    and resolved: "status approval = ''approved'' \<or> status approval = ''denied''"
  shows "twilio_webhook cfg utcnow_297 utcnow_304 f s =
           (Inr (error_reason ''Request already processed''), s)"
proof -
  have "find (\<lambda>r. id_pk r = short_id \<and> phone_number r = from_phone_of (str_of (From f))) s
          = Some approval"
    using pk stored same_id same_sender by (intro find_primary_key) auto
  moreover have "status approval \<noteq> ''pending''"
    using resolved by auto
  ultimately show ?thesis
    using parsed by (simp add: twilio_webhook_def)
qed

lemma expired_request_rejected:
  assumes parsed: "parse_response f = Inr (short_id, resp, response_text)"
    and pk: "distinct (map id_pk s)"
    and stored: "approval \<in> set s"
    and same_id: "id_pk approval = short_id"
    and same_sender: "phone_number approval = from_phone_of (str_of (From f))"
    and pending: "status approval = ''pending''"
    and passed: "utcnow_297 > expires_at approval"
  shows "twilio_webhook cfg utcnow_297 utcnow_304 f s =
           (Inr (error_reason ''Request expired''), s)"
proof -
  have "find (\<lambda>r. id_pk r = short_id \<and> phone_number r = from_phone_of (str_of (From f))) s
          = Some approval"
    using pk stored same_id same_sender by (intro find_primary_key) auto
  then show ?thesis
    using parsed pending passed by (simp add: twilio_webhook_def)
qed

subsection \<open>Senders\<close>

text \<open>
  A sender with no \<open>whatsapp:\<close> after its prefix is normalised by removing the prefix, and such
  a sender resolves no request stored for another address. With a configured address that
  itself starts with \<open>whatsapp:\<close>, the address the request was sent to finds no request.
\<close>

lemma replace_no_occurrence:
  assumes "\<forall>n. \<not> startswith (drop n s) (x # xs)"
  shows "replace s (x # xs) new = s"
  using assms
proof (induction s)
  case Nil
  show ?case by simp
next
  case (Cons c cs)
  have "\<not> startswith (c # cs) (x # xs)"
    using Cons.prems [rule_format, of 0] by simp
  moreover have "\<forall>n. \<not> startswith (drop n cs) (x # xs)"
  proof
    fix n
    show "\<not> startswith (drop n cs) (x # xs)"
      using Cons.prems [rule_format, of "Suc n"] by simp
  qed
  ultimately show ?case
    using Cons.IH by simp
qed

lemma from_phone_of_single_prefix:
  assumes "\<forall>n. \<not> startswith (drop n rest) ''whatsapp:''"
  shows "from_phone_of (''whatsapp:'' @ rest) = rest"
    and "from_phone_of rest = rest"
proof -
  have "replace rest ''whatsapp:'' [] = rest"
    using assms by (rule replace_no_occurrence)
  then show "from_phone_of (''whatsapp:'' @ rest) = rest"
    by (simp add: from_phone_of_def startswith_def)
  have "\<not> startswith rest ''whatsapp:''"
    using assms [rule_format, of 0] by simp
  then show "from_phone_of rest = rest"
    by (simp add: from_phone_of_def)
qed

lemma single_prefix_sender_not_found:
  assumes parsed: "parse_response f = Inr (short_id, resp, response_text)"
    and sender: "str_of (From f) = ''whatsapp:'' @ rest \<or> str_of (From f) = rest"
    and single: "\<forall>n. \<not> startswith (drop n rest) ''whatsapp:''"
    and differs: "\<forall>r \<in> set s. id_pk r = short_id \<longrightarrow> phone_number r \<noteq> rest"
  shows "twilio_webhook cfg utcnow_297 utcnow_304 f s =
           (Inr (error_reason ''Request not found''), s)"
proof -
  have "from_phone_of (str_of (From f)) = rest"
    using sender from_phone_of_single_prefix [OF single] by auto
  with differs
  have "find (\<lambda>r. id_pk r = short_id \<and> phone_number r = from_phone_of (str_of (From f))) s = None"
    by (auto simp: find_None_iff)
  then show ?thesis
    using parsed by (simp add: twilio_webhook_def)
qed

lemma prefixed_address_not_found:
  assumes configured: "APPROVAL_PHONE cfg = Some phone"
    and prefixed: "startswith phone ''whatsapp:''"
    and parsed: "parse_response f = Inr (short_id, resp, response_text)"
    and stored: "\<forall>r \<in> set s. id_pk r = short_id \<longrightarrow> phone_number r = phone"
    and sender: "str_of (From f) = to_number_of phone \<or>
                 \<not> startswith (from_phone_of (str_of (From f))) ''whatsapp:''"
  shows "phone_number (new_approval e request (str_of (APPROVAL_PHONE cfg))) = phone \<and>
         twilio_webhook cfg utcnow_297 utcnow_304 f s =
           (Inr (error_reason ''Request not found''), s)"
proof -
  have "from_phone_of (str_of (From f)) \<noteq> phone"
    using sender
  proof
    assume "str_of (From f) = to_number_of phone"
    then have "str_of (From f) = phone"
      using prefixed by (simp add: to_number_of_def)
    with from_phone_of_prefixed [OF prefixed] show ?thesis by simp
  next
    assume "\<not> startswith (from_phone_of (str_of (From f))) ''whatsapp:''"
    with prefixed show ?thesis by auto
  qed
  with stored have "\<forall>r \<in> set s. id_pk r = short_id \<longrightarrow>
                      phone_number r \<noteq> from_phone_of (str_of (From f))"
    by auto
  then have "find (\<lambda>r. id_pk r = short_id \<and> phone_number r = from_phone_of (str_of (From f))) s
               = None"
    by (auto simp: find_None_iff)
  then show ?thesis
    using parsed configured by (simp add: twilio_webhook_def new_approval_def str_of_def)
qed

section \<open>Properties\<close>

subsection \<open>A reply typed as text\<close>

text \<open>
  Claim C1. A pending, unexpired request with the id \<open>abc12345\<close> is answered by its
  recipient with the text "approve abc12345". The claim expects the request to become approved
  and the waiting tool to return the approved result. The handler upper-cases the whole text,
  the id with it, and looks the request up under \<open>ABC12345\<close>: it answers
  "Request not found", the table stays as it was, and the tool waits until its time is over.
\<close>

theorem free_text_reply_not_found:
  "twilio_webhook ok_client 10000000 10000001 text_form [pending_row] =
     (Inr (error_reason ''Request not found''), [pending_row]) \<and>
   permissions__approve ok_client (reply_env ok_client text_form) ''Write'' [] [] [] =
     Some (Inr (error ''Request timed out''), [pending_row])"
  by code_simp

subsection \<open>A resolved request is not resolved again\<close>

text \<open>
  Claim C2. For a request that is already approved or denied, a further callback that carries
  its id and comes from its sender is expected to get the answer "Request already processed",
  with the stored status, \<open>responded_at\<close> and \<open>response\<close> unchanged. The request
  \<open>abc12345\<close> is approved with a button; its recipient then sends the text
  "approve abc12345". The handler looks the request up under the upper-cased id and answers
  "Request not found"; the table stays as it was.
\<close>

theorem text_reply_to_resolved_not_found:
  "twilio_webhook ok_client 10000000 10000001 button_form [pending_row] =
     (Inr [(''status'', JStr ''success''),
           (''request_id'', JStr ''abc12345-6789-4abc-8def-0123456789ab''),
           (''response'', JStr ''approved'')], [approved_row]) \<and>
   status approved_row = ''approved'' \<and>
   twilio_webhook ok_client 20000000 20000001 text_form [approved_row] =
     (Inr (error_reason ''Request not found''), [approved_row])"
  by code_simp

subsection \<open>An expired request is not resolved\<close>

text \<open>
  Claim C3. For a pending request whose \<open>expires_at\<close> has passed, a well-formed callback for it
  is expected to get the answer "Request expired", with the stored request unchanged. The
  recipient of the pending request \<open>abc12345\<close> sends the text "approve abc12345" thirty
  seconds after its expiry. The handler looks the request up under the upper-cased id and
  answers "Request not found"; the table stays as it was.
\<close>

theorem text_reply_after_expiry_not_found:
  "status pending_row = ''pending'' \<and> 330000000 > expires_at pending_row \<and>
   twilio_webhook ok_client 330000000 330000001 text_form [pending_row] =
     (Inr (error_reason ''Request not found''), [pending_row])"
  by code_simp

subsection \<open>A request that could not be sent is removed\<close>



subsection \<open>Only the recipient of a request resolves it\<close>

text \<open>
  Claim C5. A callback whose sender, with its prefix removed, differs from the address stored
  with the request is expected to get the answer "Request not found" and to change no request.
  The handler removes every \<open>whatsapp:\<close> from a sender that starts with one: the sender
  \<open>whatsapp:+1555whatsapp:1234567\<close>, which without its prefix is not the stored address
  \<open>+15551234567\<close>, is taken for it, and the request is approved.
\<close>

theorem interior_prefix_sender_resolves:
  "From interior_form = Some (''whatsapp:'' @ ''+1555whatsapp:1234567'') \<and>
   phone_number pending_row = ''+15551234567'' \<and>
   twilio_webhook ok_client 10000000 10000001 interior_form [pending_row] =
     (Inr [(''status'', JStr ''success''),
           (''request_id'', JStr ''abc12345-6789-4abc-8def-0123456789ab''),
           (''response'', JStr ''approved'')], [approved_row])"
  by code_simp

subsection \<open>The invariant of stored requests\<close>

text \<open>
  Claim C6. In every table the server can reach, each request has \<open>responded_at\<close> and
  \<open>response\<close> unset exactly when its status is pending; and a run of the webhook handler
  leaves each request as it was or takes it from pending to approved or to denied, the latter
  only when the clock the handler reads at its expiry test has not passed \<open>expires_at\<close>.
\<close>

theorem lifecycle_invariant:
  assumes "reachable s"
  shows "(\<forall>r \<in> set s. row_inv r) \<and>
         (\<forall>cfg utcnow_297 utcnow_304 f out s'.
            twilio_webhook cfg utcnow_297 utcnow_304 f s = (out, s') \<longrightarrow>
            length s' = length s \<and>
            (\<forall>i < length s.
               s' ! i = s ! i \<or>
               status (s ! i) = ''pending'' \<and>
               (status (s' ! i) = ''approved'' \<or> status (s' ! i) = ''denied'') \<and>
               \<not> utcnow_297 > expires_at (s ! i)))"
proof (intro conjI allI impI)
  show "\<forall>r \<in> set s. row_inv r"
    using assms by (rule reachable_row_inv)
next
  fix cfg utcnow_297 utcnow_304 f out s'
  assume run: "twilio_webhook cfg utcnow_297 utcnow_304 f s = (out, s')"
  from twilio_webhook_cases [OF run] show "length s' = length s"
    by (auto simp: commit_update_def)
next
  fix cfg utcnow_297 utcnow_304 f out s' i
  assume run: "twilio_webhook cfg utcnow_297 utcnow_304 f s = (out, s')" and i: "i < length s"
  from twilio_webhook_cases [OF run]
  show "s' ! i = s ! i \<or>
        status (s ! i) = ''pending'' \<and>
        (status (s' ! i) = ''approved'' \<or> status (s' ! i) = ''denied'') \<and>
        \<not> utcnow_297 > expires_at (s ! i)"
  proof
    assume "s' = s"
    then show ?thesis by simp
  next
    assume "\<exists>short_id resp response_text approval.
            parse_response f = Inr (short_id, resp, response_text) \<and>
            find (\<lambda>r. id_pk r = short_id \<and> phone_number r = from_phone_of (str_of (From f))) s
              = Some approval \<and>
            status approval = ''pending'' \<and> \<not> utcnow_297 > expires_at approval \<and>
            s' = commit_update (approval\<lparr>status := resp, response := Some response_text,
                                         responded_at := Some utcnow_304\<rparr>) s"
    then obtain short_id resp response_text approval where
      parsed: "parse_response f = Inr (short_id, resp, response_text)" and
      found: "find (\<lambda>r. id_pk r = short_id \<and> phone_number r = from_phone_of (str_of (From f))) s
              = Some approval" and
      pending: "status approval = ''pending''" and
      in_time: "\<not> utcnow_297 > expires_at approval" and
      s': "s' = commit_update (approval\<lparr>status := resp, response := Some response_text,
                                         responded_at := Some utcnow_304\<rparr>) s"
      by blast
    have stored: "approval \<in> set s"
      using find_Some_holds [OF found] by simp
    have "s' ! i = (if s ! i = approval
                    then approval\<lparr>status := resp, response := Some response_text,
                                         responded_at := Some utcnow_304\<rparr>
                    else s ! i)"
      unfolding s' using reachable_distinct [OF assms] stored i
      by (intro commit_update_nth) simp_all
    with parse_response_decision [OF parsed] pending in_time show ?thesis
      by auto
  qed
qed

theorem lifecycle_invariant_witness:
  "reachable [pending_row] \<and> row_inv pending_row \<and>
   snd (twilio_webhook no_client 10000000 10000001 button_form [pending_row]) = [approved_row] \<and>
   status pending_row = ''pending'' \<and> status approved_row = ''approved'' \<and>
   \<not> 10000000 > expires_at pending_row"
proof -
  note inv = lifecycle_invariant [OF reachable_pending_row]
  from inv have "row_inv pending_row" by simp
  moreover from inv webhook_button_form
  have "[approved_row] ! 0 = [pending_row] ! 0 \<or>
        status ([pending_row] ! 0) = ''pending'' \<and>
        (status ([approved_row] ! 0) = ''approved'' \<or> status ([approved_row] ! 0) = ''denied'') \<and>
        \<not> 10000000 > expires_at ([pending_row] ! 0)"
    by blast
  moreover have "approved_row \<noteq> pending_row"
    by (simp add: approved_row_def pending_row_def)
  moreover have "status approved_row = ''approved''"
    by (simp add: approved_row_def)
  ultimately show ?thesis
    using reachable_pending_row webhook_button_form by simp
qed

subsection \<open>Decoding what was encoded\<close>

text \<open>
  Claim C7. The pair of an action and an id, written in the shape of a button payload, of a list
  selection or of a text reply, is expected to be decoded to the same pair. For the text
  "APPROVE abc12345" the handler decodes the id \<open>ABC12345\<close>.
\<close>

theorem free_text_round_trip_fails:
  "parse_response (empty_form\<lparr>From := Some ''whatsapp:+15551234567'',
                                Body := Some (''APPROVE '' @ ''abc12345'')\<rparr>) =
     Inr (''ABC12345'', ''approved'', ''APPROVE ABC12345'')"
  by code_simp

subsection \<open>A confirmation that cannot be sent\<close>

text \<open>
  Claim C8. After the decision is recorded, a failure to send the confirmation is expected to
  leave the handler's success response in place. The handler does not catch the exception of
  the client: the decision stays recorded, and the exception leaves the handler in place of a
  response.
\<close>

theorem confirmation_failure_raises:
  "twilio_webhook failing_client 10000000 10000001 button_form [pending_row] =
     (Inl ''HTTP 500'', [approved_row])"
  by code_simp

subsection \<open>An approval address with the channel prefix\<close>

text \<open>
  Claim C9. The tool stores the configured approval address as it is, and the handler is to
  compare it with the sender after removing the prefix \<open>whatsapp:\<close>: with a configured
  address that starts with \<open>whatsapp:\<close>, every well-formed response is expected to get the
  answer "Request not found". The handler removes every \<open>whatsapp:\<close> from the sender, not
  only the prefix: from the sender \<open>whatsapp:whatswhatsapp:app:+15551234567\<close> this leaves the
  prefixed address, the request is found and approved, and the waiting tool returns the
  approved result.
\<close>

theorem crafted_sender_resolves:
  "startswith (str_of (APPROVAL_PHONE prefixed_client)) ''whatsapp:'' \<and>
   new_approval quiet_env ''*Tool:* Write'' (str_of (APPROVAL_PHONE prefixed_client)) = prefixed_row \<and>
   parse_response crafted_form = Inr (''abc12345'', ''approved'', ''approve_abc12345'') \<and>
   twilio_webhook prefixed_client 10000000 10000001 crafted_form [prefixed_row] =
     (Inr [(''status'', JStr ''success''),
           (''request_id'', JStr ''abc12345-6789-4abc-8def-0123456789ab''),
           (''response'', JStr ''approved'')],
      [prefixed_row\<lparr>status := ''approved'', response := Some ''approve_abc12345'',
                      responded_at := Some 10000001\<rparr>]) \<and>
   permissions__approve prefixed_client (reply_env prefixed_client crafted_form) ''Write'' [] [] [] =
     Some (Inr approved,
           [prefixed_row\<lparr>status := ''approved'', response := Some ''approve_abc12345'',
                           responded_at := Some 10000001\<rparr>])"
  by code_simp

subsection \<open>The tool returns\<close>





end
